theory Spec2Isabelle
  imports Main "HOL-Library.Sublist"
begin

section \<open>Strings as Python uses them in gitweb.py\<close>

text \<open>
  Python strings are modelled as \<open>string\<close>. Every string the handlers build or compare
  (command names, content types, the advertisement line) is ASCII, so a character is a byte
  and \<open>length\<close> is Python's \<open>len\<close>.
\<close>

text \<open>\<open>needle in haystack\<close> on two Python strings: \<open>needle\<close> occurs as a contiguous substring.\<close>

fun str_contains :: "string \<Rightarrow> string \<Rightarrow> bool" where
  "str_contains needle [] = (needle = [])"
| "str_contains needle (c # cs) = (prefix needle (c # cs) \<or> str_contains needle cs)"

text \<open>\<open>s.startswith(p)\<close> and \<open>s.endswith(p)\<close>.\<close>

definition startswith :: "string \<Rightarrow> string \<Rightarrow> bool" where
  "startswith s p = prefix p s"

definition endswith :: "string \<Rightarrow> string \<Rightarrow> bool" where
  "endswith s p = prefix (rev p) (rev s)"

text \<open>\<open>s.strip('/')\<close>: every leading and every trailing slash is removed.\<close>

definition strip_slash :: "string \<Rightarrow> string" where
  "strip_slash s =
     rev (dropWhile (\<lambda>c. c = CHR ''/'') (rev (dropWhile (\<lambda>c. c = CHR ''/'') s)))"

text \<open>\<open>s.lower()\<close> on ASCII text: the letters A to Z are mapped to a to z.\<close>

definition lower_char :: "char \<Rightarrow> char" where
  "lower_char c =
     (case map_of (zip ''ABCDEFGHIJKLMNOPQRSTUVWXYZ'' ''abcdefghijklmnopqrstuvwxyz'') c of
        None \<Rightarrow> c
      | Some l \<Rightarrow> l)"

definition lower :: "string \<Rightarrow> string" where
  "lower s = map lower_char s"

text \<open>\<open>s.rjust(width, fill)\<close>: pad on the left up to \<open>width\<close>; a longer string is unchanged.\<close>

definition rjust :: "nat \<Rightarrow> char \<Rightarrow> string \<Rightarrow> string" where
  "rjust width fill s = replicate (width - length s) fill @ s"

text \<open>
  \<open>hex(n)[2:]\<close> for a non-negative \<open>n\<close>: the lowercase hexadecimal digits of \<open>n\<close>, most
  significant first, without leading zeros (\<open>hex(0)[2:]\<close> is \<open>0\<close>).
\<close>

definition hex_digit :: "nat \<Rightarrow> char" where
  "hex_digit d = ''0123456789abcdef'' ! (d mod 16)"

fun hex_str :: "nat \<Rightarrow> string" where
  "hex_str n = (if n < 16 then [hex_digit n] else hex_str (n div 16) @ [hex_digit (n mod 16)])"

declare hex_str.simps [simp del]

text \<open>Reading hexadecimal text back, as a pkt-line client reads the length field.\<close>

definition hex_digit_val :: "char \<Rightarrow> nat" where
  "hex_digit_val c =
     (case map_of (zip ''0123456789abcdef'' [0 ..< 16]) c of None \<Rightarrow> 0 | Some d \<Rightarrow> d)"

definition hex_val :: "string \<Rightarrow> nat" where
  "hex_val s = foldl (\<lambda>a c. 16 * a + hex_digit_val c) 0 s"

section \<open>The advertisement frame of \<open>GitRepository.inforefs\<close>\<close>

definition commands :: "string list" where
  "commands = [''git-upload-pack'', ''git-receive-pack'']"

text \<open>\<open>smart_server_advert = '# service=%s' % git_command\<close>\<close>

definition smart_server_advert :: "string \<Rightarrow> string" where
  "smart_server_advert git_command = ''# service='' @ git_command"

text \<open>
  The single starting value handed to the subprocess bridge:
  \<open>hex(len(smart_server_advert)+4)[2:].rjust(4,'0') + smart_server_advert + '0000'\<close>.
\<close>

definition advert_frame :: "string \<Rightarrow> string" where
  "advert_frame advert = rjust 4 CHR ''0'' (hex_str (length advert + 4)) @ advert @ ''0000''"

text \<open>
  The frame as the specification words it: the length field counts four bytes for itself,
  the payload and one newline, and a newline byte follows the payload.
\<close>

definition spec_frame :: "string \<Rightarrow> string" where
  "spec_frame payload =
     rjust 4 CHR ''0'' (hex_str (length payload + 5)) @ payload @ [CHR 0x0A] @ ''0000''"

section \<open>HTTP responses and Python exceptions\<close>

text \<open>The webob response classes the handlers use, and the status code each one carries.\<close>

datatype http_status =
  HTTPOk | HTTPForbidden | HTTPNotFound | HTTPMethodNotAllowed | HTTPExpectationFailed
  | HTTPInternalServerError

fun status_code :: "http_status \<Rightarrow> nat" where
  "status_code HTTPOk = 200"
| "status_code HTTPForbidden = 403"
| "status_code HTTPNotFound = 404"
| "status_code HTTPMethodNotAllowed = 405"
| "status_code HTTPExpectationFailed = 417"
| "status_code HTTPInternalServerError = 500"

text \<open>
  The exceptions that occur in gitweb.py. \<open>EnvironmentError\<close> is Python 3's alias of
  \<open>OSError\<close> (the module assigns \<open>log = print\<close>, so it is Python 3 code); \<open>OtherError\<close>
  stands for any exception that is neither an \<open>OSError\<close> nor an \<open>HTTPException\<close>.
\<close>

datatype py_exc =
  HTTPException http_status | KeyError | AssertionError | OSError | AttributeError
  | UnboundLocalError | OtherError

text \<open>
  What reaches the server: the status given to \<open>start_response\<close>, the content type and the
  body iterator. The body of an error page is not modelled (it is empty here).
\<close>

record response =
  status :: http_status
  content_type :: string
  app_iter :: "string list"

definition http_response :: "http_status \<Rightarrow> response" where
  "http_response s = \<lparr>status = s, content_type = ''text/html'', app_iter = []\<rparr>"

section \<open>\<open>FileWrapper\<close>\<close>

text \<open>
  The wrapped stream \<open>fd\<close> is the list of bytes it still holds. \<open>fd.read(size)\<close> follows
  Python's file protocol: a negative size reads to the end, otherwise at most \<open>size\<close>
  bytes are taken. \<open>fd_reads\<close> logs the sizes passed to \<open>fd.read\<close>, one entry per call into
  the underlying stream.
\<close>

record file_wrapper =
  fd :: string
  content_length :: int
  remain :: int
  fd_reads :: "int list"

definition FileWrapper :: "string \<Rightarrow> int \<Rightarrow> file_wrapper" where
  "FileWrapper stream n = \<lparr>fd = stream, content_length = n, remain = n, fd_reads = []\<rparr>"

definition fd_read :: "int \<Rightarrow> string \<Rightarrow> string \<times> string" where
  "fd_read sz stream =
     (if sz < 0 then (stream, []) else (take (nat sz) stream, drop (nat sz) stream))"

text \<open>\<open>FileWrapper.read\<close>: the data returned (\<open>None\<close> is Python's \<open>None\<close>) and the wrapper after the call.\<close>

definition FileWrapper_read :: "int \<Rightarrow> file_wrapper \<Rightarrow> string option \<times> file_wrapper" where
  "FileWrapper_read sz fw =
     (if sz \<le> remain fw then
        (case fd_read sz (fd fw) of (data, rest) \<Rightarrow>
           (Some data, fw\<lparr>fd := rest, remain := remain fw - sz, fd_reads := fd_reads fw @ [sz]\<rparr>))
      else if remain fw \<noteq> 0 then
        (case fd_read (remain fw) (fd fw) of (data, rest) \<Rightarrow>
           (Some data, fw\<lparr>fd := rest, remain := 0, fd_reads := fd_reads fw @ [remain fw]\<rparr>))
      else (None, fw))"

text \<open>A run of \<open>read\<close> calls with the given sizes: the data of every call that returned some.\<close>

fun reads :: "int list \<Rightarrow> file_wrapper \<Rightarrow> string list \<times> file_wrapper" where
  "reads [] fw = ([], fw)"
| "reads (sz # szs) fw =
     (case FileWrapper_read sz fw of
        (None, fw') \<Rightarrow> reads szs fw'
      | (Some data, fw') \<Rightarrow> (case reads szs fw' of (ds, fw'') \<Rightarrow> (data # ds, fw'')))"

section \<open>Requests, the filesystem and the external programs\<close>

text \<open>
  The parts of a webob request the handlers read. \<open>GET\<close> is the query string as a list of
  pairs; \<open>accept req offer\<close> is the truth value of \<open>offer in request.accept\<close>;
  \<open>CONTENT_LENGTH\<close> is \<open>None\<close> when the key is absent from the environment and otherwise the
  number webob parses from it; \<open>wsgi_input\<close> holds the bytes of the body stream.
\<close>

record request =
  path_info :: string
  GET :: "(string \<times> string) list"
  accept :: "string \<Rightarrow> bool"
  CONTENT_LENGTH :: "int option"
  wsgi_input :: string

text \<open>\<open>request.GET[key]\<close>: webob's MultiDict gives the last value stored under the key.\<close>

definition multidict_getitem :: "(string \<times> string) list \<Rightarrow> string \<Rightarrow> string option" where
  "multidict_getitem items k = map_of (rev items) k"

text \<open>
  \<open>request.path_info_pop()\<close> of webob: \<open>None\<close> on an empty path; otherwise the leading
  slashes are dropped, the first segment is returned and the rest stays as the path.
\<close>

definition path_info_pop :: "request \<Rightarrow> (string \<times> request) option" where
  "path_info_pop req =
     (if path_info req = [] then None
      else (let path = dropWhile (\<lambda>c. c = CHR ''/'') (path_info req)
            in Some (takeWhile (\<lambda>c. c \<noteq> CHR ''/'') path,
                     req\<lparr>path_info := dropWhile (\<lambda>c. c \<noteq> CHR ''/'') path\<rparr>)))"

text \<open>\<open>os.path.join(a, b)\<close> of posixpath.\<close>

definition path_join :: "string \<Rightarrow> string \<Rightarrow> string" where
  "path_join a b =
     (if startswith b ''/'' then b
      else if a = [] \<or> endswith a ''/'' then a @ b
      else a @ ''/'' @ b)"

text \<open>
  The filesystem as the code queries it: \<open>os.path.realpath\<close>, \<open>os.listdir\<close> (\<open>None\<close> when it
  raises \<open>OSError\<close>) and \<open>os.path.isdir\<close>.
\<close>

record fs =
  realpath :: "string \<Rightarrow> string"
  listdir :: "string \<Rightarrow> string list option"
  isdir :: "string \<Rightarrow> bool"

text \<open>
  Every effect outside the Python process is logged in order: a process started through
  the subprocess bridge, a command run with \<open>subprocess.call\<close>, \<open>os.makedirs\<close>, and the
  two hook slots of the router.
\<close>

datatype event =
  Spawned string | Called string | MadeDirs string | PreCloneHook string | PostCloneHook string

record world =
  files :: fs
  trace :: "event list"

datatype input_stream = NoInput | RawInput string | BoundedInput file_wrapper

text \<open>
  The external programs, as parameters: what a process started by the bridge does (it
  fails to start with an exception, or yields its output chunks), what a command run with
  \<open>subprocess.call\<close> does (an exception, or its exit status), and \<open>os.makedirs\<close>. Each may
  change the filesystem.
\<close>

record os_env =
  run_process :: "string \<Rightarrow> input_stream \<Rightarrow> fs \<Rightarrow> (py_exc + string list) \<times> fs"
  subprocess_call :: "string \<Rightarrow> fs \<Rightarrow> (py_exc + int) \<times> fs"
  os_makedirs :: "string \<Rightarrow> fs \<Rightarrow> py_exc + fs"

text \<open>
  Modelled from the spec: \<open>subprocessio.SubprocessIOChunker\<close> is imported by gitweb.py and is
  not among the source files. The specification's bridge contract is used: the process is
  started with the command line and the input stream; a start failure is raised as an
  exception; otherwise the result is the output sequence, the pre-seeded starting values
  first and the process output after them.
\<close>

definition SubprocessIOChunker ::
  "os_env \<Rightarrow> string \<Rightarrow> input_stream \<Rightarrow> string list \<Rightarrow> world \<Rightarrow> (py_exc + string list) \<times> world" where
  "SubprocessIOChunker env cmd inputstream starting_values w =
     (case run_process env cmd inputstream (files w) of (r, f') \<Rightarrow>
        ((case r of Inl e \<Rightarrow> Inl e | Inr out \<Rightarrow> Inr (starting_values @ out)),
         \<lparr>files = f', trace = trace w @ [Spawned cmd]\<rparr>))"

text \<open>\<open>subprocess.call(cmd, shell=True)\<close>\<close>

definition call_shell :: "os_env \<Rightarrow> string \<Rightarrow> world \<Rightarrow> (py_exc + int) \<times> world" where
  "call_shell env cmd w =
     (case subprocess_call env cmd (files w) of (r, f') \<Rightarrow>
        (r, \<lparr>files = f', trace = trace w @ [Called cmd]\<rparr>))"

section \<open>\<open>GitRepository\<close>\<close>

definition git_folder_signature :: "string set" where
  "git_folder_signature = {''config'', ''head'', ''info'', ''objects'', ''refs''}"

definition valid_accepts :: "string list" where
  "valid_accepts = map (\<lambda>c. ''application/x-'' @ c @ ''-result'') commands"

record git_repository =
  content_path :: string

text \<open>
  \<open>GitRepository.__init__\<close>: \<open>os.listdir\<close> may raise \<open>OSError\<close>; the \<open>assert\<close> raises
  \<open>AssertionError\<close> unless the lowercased entry names cover the whole signature.
\<close>

definition GitRepository_init :: "fs \<Rightarrow> string \<Rightarrow> py_exc + git_repository" where
  "GitRepository_init f path =
     (case listdir f path of
        None \<Rightarrow> Inl OSError
      | Some names \<Rightarrow>
          (if git_folder_signature \<inter> set (map lower names) = git_folder_signature
           then Inr \<lparr>content_path = path\<rparr>
           else Inl AssertionError))"

text \<open>The command lines, with the double quotes the format strings put around the path.\<close>

definition quoted :: "string \<Rightarrow> string" where
  "quoted path = [CHR 0x22] @ path @ [CHR 0x22]"

definition advertise_cmdline :: "string \<Rightarrow> string \<Rightarrow> string" where
  "advertise_cmdline git_command path =
     ''git '' @ drop 4 git_command @ '' --stateless-rpc --advertise-refs '' @ quoted path"

definition service_cmdline :: "string \<Rightarrow> string \<Rightarrow> string" where
  "service_cmdline git_command path =
     ''git '' @ drop 4 git_command @ '' --stateless-rpc '' @ quoted path"

definition update_server_info_cmdline :: "string \<Rightarrow> string" where
  "update_server_info_cmdline path = ''git --git-dir '' @ quoted path @ '' update-server-info''"

definition git_init_cmdline :: "string \<Rightarrow> string" where
  "git_init_cmdline path = ''git init --quiet --bare '' @ quoted path"

text \<open>
  \<open>GitRepository.inforefs\<close>. A missing \<open>service\<close> key makes \<open>request.GET['service']\<close> raise
  \<open>KeyError\<close>; an unknown command returns the 405 response; \<open>except EnvironmentError\<close> turns
  an \<open>OSError\<close> of the bridge into \<open>HTTPExpectationFailed\<close>, any other exception passes.
\<close>

definition inforefs ::
  "os_env \<Rightarrow> git_repository \<Rightarrow> request \<Rightarrow> world \<Rightarrow> (py_exc + response) \<times> world" where
  "inforefs env repo req w =
     (case multidict_getitem (GET req) ''service'' of
        None \<Rightarrow> (Inl KeyError, w)
      | Some git_command \<Rightarrow>
          (if git_command \<notin> set commands then (Inr (http_response HTTPMethodNotAllowed), w)
           else
             (case SubprocessIOChunker env (advertise_cmdline git_command (content_path repo))
                     NoInput [advert_frame (smart_server_advert git_command)] w of
                (Inl e, w') \<Rightarrow>
                  (if e = OSError then (Inl (HTTPException HTTPExpectationFailed), w')
                   else (Inl e, w'))
              | (Inr out, w') \<Rightarrow>
                  (Inr \<lparr>status = HTTPOk,
                        content_type = ''application/x-'' @ git_command @ ''-advertisement'',
                        app_iter = out\<rparr>, w'))))"

text \<open>
  The input stream \<open>backend\<close> hands to the bridge: the body behind a \<open>FileWrapper\<close> when
  \<open>CONTENT_LENGTH\<close> is in the environment, the raw body otherwise.
\<close>

definition inputstream_of :: "request \<Rightarrow> input_stream" where
  "inputstream_of req =
     (case CONTENT_LENGTH req of
        Some n \<Rightarrow> BoundedInput (FileWrapper (wsgi_input req) n)
      | None \<Rightarrow> RawInput (wsgi_input req))"

text \<open>
  \<open>'application/x-%s-result' % git_command.encode('utf8')\<close>: in Python 3 the \<open>%s\<close> of a bytes
  value is its \<open>repr\<close>, the letter b and the text in single quotes.
\<close>

definition result_content_type :: "string \<Rightarrow> string" where
  "result_content_type git_command =
     ''application/x-b'' @ [CHR 0x27] @ git_command @ [CHR 0x27] @ ''-result''"

text \<open>
  \<open>GitRepository.backend\<close>. After the bridge has returned, a receive-pack request runs
  \<open>git update-server-info\<close> with \<open>subprocess.call\<close>; its exit status is dropped, and an
  exception it raises is not caught here.
\<close>

definition backend ::
  "os_env \<Rightarrow> git_repository \<Rightarrow> request \<Rightarrow> world \<Rightarrow> (py_exc + response) \<times> world" where
  "backend env repo req w =
     (let git_command = strip_slash (path_info req) in
      if git_command \<notin> set commands then (Inr (http_response HTTPMethodNotAllowed), w)
      else
        (case SubprocessIOChunker env (service_cmdline git_command (content_path repo))
                (inputstream_of req) [] w of
           (Inl e, w') \<Rightarrow>
             (if e = OSError then (Inl (HTTPException HTTPExpectationFailed), w')
              else (Inl e, w'))
         | (Inr out, w') \<Rightarrow>
             (let resp = \<lparr>status = HTTPOk, content_type = result_content_type git_command,
                          app_iter = out\<rparr>
              in if git_command \<in> set [''git-receive-pack''] then
                   (case call_shell env (update_server_info_cmdline (content_path repo)) w' of
                      (Inl e, w'') \<Rightarrow> (Inl e, w'')
                    | (Inr rc, w'') \<Rightarrow> (Inr resp, w''))
                 else (Inr resp, w'))))"

text \<open>
  \<open>GitRepository.__call__\<close>. When neither branch binds \<open>app\<close>, calling it raises
  \<open>UnboundLocalError\<close> inside the \<open>try\<close>. An \<open>HTTPException\<close> becomes the response, any other
  exception becomes \<open>HTTPInternalServerError\<close>.
\<close>

definition GitRepository_call ::
  "os_env \<Rightarrow> git_repository \<Rightarrow> request \<Rightarrow> world \<Rightarrow> response \<times> world" where
  "GitRepository_call env repo req w =
     (case (if startswith (path_info req) ''/info/refs'' then inforefs env repo req w
            else if list_ex (accept req) valid_accepts then backend env repo req w
            else (Inl UnboundLocalError, w)) of
        (Inr resp, w') \<Rightarrow> (resp, w')
      | (Inl (HTTPException s), w') \<Rightarrow> (http_response s, w')
      | (Inl e, w') \<Rightarrow> (http_response HTTPInternalServerError, w'))"

section \<open>\<open>GitDirectory\<close>\<close>

text \<open>
  A hook is called with the repository path and the request. It returns normally (\<open>None\<close>)
  or raises, and it may change the filesystem.
\<close>

type_synonym hook = "string \<Rightarrow> request \<Rightarrow> fs \<Rightarrow> py_exc option \<times> fs"

text \<open>The two methods \<open>pre_clone_hook\<close> and \<open>post_clone_hook\<close> of the class: \<open>pass\<close>.\<close>

definition default_hook :: hook where
  "default_hook path req f = (None, f)"

record git_directory =
  dir_content_path :: string
  auto_create :: bool
  pre_clone_hook :: hook
  post_clone_hook :: hook



text \<open>Calling a hook slot of the router, logged under the slot's name.\<close>

definition run_hook :: "hook \<Rightarrow> event \<Rightarrow> string \<Rightarrow> request \<Rightarrow> world \<Rightarrow> py_exc option \<times> world" where
  "run_hook h ev path req w =
     (case h path req (files w) of (r, f') \<Rightarrow> (r, \<lparr>files = f', trace = trace w @ [ev]\<rparr>))"

text \<open>
  \<open>self.repository_app(content_path)\<close> followed by \<open>app(environ, start_response)\<close>: the
  constructor's exception is not caught at this point.
\<close>

definition repository_app_call ::
  "os_env \<Rightarrow> string \<Rightarrow> request \<Rightarrow> world \<Rightarrow> (py_exc + response) \<times> world" where
  "repository_app_call env path req w =
     (case GitRepository_init (files w) path of
        Inl e \<Rightarrow> (Inl e, w)
      | Inr app \<Rightarrow> (case GitRepository_call env app req w of (resp, w') \<Rightarrow> (Inr resp, w')))"

text \<open>
  The \<open>try\<close> block of the auto-create branch: pre hook, \<open>git init\<close>, post hook. An
  \<open>HTTPException\<close> raised in it is returned as the response; any other exception leaves
  the router.
\<close>

definition create_repository ::
  "os_env \<Rightarrow> git_directory \<Rightarrow> string \<Rightarrow> request \<Rightarrow> world \<Rightarrow> py_exc option \<times> world" where
  "create_repository env self path req w =
     (case run_hook (pre_clone_hook self) (PreCloneHook path) path req w of
        (Some e, w1) \<Rightarrow> (Some e, w1)
      | (None, w1) \<Rightarrow>
          (case call_shell env (git_init_cmdline path) w1 of
             (Inl e, w2) \<Rightarrow> (Some e, w2)
           | (Inr rc, w2) \<Rightarrow> run_hook (post_clone_hook self) (PostCloneHook path) path req w2))"

text \<open>
  \<open>GitDirectory.__call__\<close>. \<open>Inl\<close> is an exception that leaves the WSGI callable: the
  \<open>AttributeError\<close> of \<open>None.endswith\<close> when the path is empty, or what the fallback
  constructor, a hook or \<open>subprocess.call\<close> raises.
\<close>

definition GitDirectory_call ::
  "os_env \<Rightarrow> git_directory \<Rightarrow> request \<Rightarrow> world \<Rightarrow> (py_exc + response) \<times> world" where
  "GitDirectory_call env self req0 w =
     (case path_info_pop req0 of
        None \<Rightarrow> (Inl AttributeError, w)
      | Some (repo_name, req) \<Rightarrow>
          (if \<not> endswith repo_name ''.git'' then (Inr (http_response HTTPNotFound), w)
           else
             (let path = realpath (files w) (path_join (dir_content_path self) repo_name) in
              if \<not> str_contains (dir_content_path self) path
              then (Inr (http_response HTTPForbidden), w)
              else
                (case GitRepository_init (files w) path of
                   Inr app \<Rightarrow>
                     (case GitRepository_call env app req w of (resp, w') \<Rightarrow> (Inr resp, w'))
                 | Inl e \<Rightarrow>
                     (if isdir (files w) path then repository_app_call env path req w
                      else if auto_create self
                              \<and> accept req ''application/x-git-receive-pack-result''
                      then
                        (case create_repository env self path req w of
                           (Some (HTTPException s), w') \<Rightarrow> (Inr (http_response s), w')
                         | (Some e', w') \<Rightarrow> (Inl e', w')
                         | (None, w') \<Rightarrow> repository_app_call env path req w')
                      else (Inr (http_response HTTPNotFound), w))))))"

section \<open>The specification's wording of containment\<close>

text \<open>
  A path is a descendant of the content root when the root is a string prefix of it
  (string-prefix containment, as the specification words the invariant).
\<close>

definition is_descendant :: "string \<Rightarrow> string \<Rightarrow> bool" where
  "is_descendant base path = prefix base path"

text \<open>
  The trailing segment of a request path: the text between the last slash that is followed
  by something and the end, trailing slashes aside.
\<close>

definition trailing_segment :: "string \<Rightarrow> string" where
  "trailing_segment p =
     rev (takeWhile (\<lambda>c. c \<noteq> CHR ''/'') (dropWhile (\<lambda>c. c = CHR ''/'') (rev p)))"

section \<open>Example configurations\<close>

text \<open>
  A content root \<open>/srv/git\<close> holding one bare repository \<open>repo.git\<close>, a directory
  \<open>four.git\<close> with only four of the marker entries, and a symbolic link \<open>link.git\<close> that
  points outside the root. \<open>realpath\<close> resolves the link and the parent of the root.
\<close>

definition bare_entries :: "string list" where
  "bare_entries = [''HEAD'', ''config'', ''description'', ''hooks'', ''info'', ''objects'', ''refs'']"

definition ex_fs :: fs where
  "ex_fs =
     \<lparr>realpath = (\<lambda>p. if p = ''/srv/git/..'' then ''/srv''
                      else if p = ''/srv/git/link.git'' then ''/etc/secret.git''
                      else p),
      listdir = (\<lambda>p. if p = ''/srv/git/repo.git'' then Some bare_entries
                     else if p = ''/srv/git/four.git''
                     then Some [''config'', ''HEAD'', ''objects'', ''refs'']
                     else None),
      isdir = (\<lambda>p. p = ''/srv/git'' \<or> p = ''/srv/git/repo.git'' \<or> p = ''/srv/git/four.git'')\<rparr>"

definition ex_world :: world where
  "ex_world = \<lparr>files = ex_fs, trace = []\<rparr>"

text \<open>What \<open>git init --bare\<close> leaves at a path.\<close>

definition git_init_at :: "string \<Rightarrow> fs \<Rightarrow> fs" where
  "git_init_at path f =
     f\<lparr>listdir := (listdir f)(path := Some bare_entries), isdir := (isdir f)(path := True)\<rparr>"

text \<open>
  An environment in which every process the bridge starts ends as \<open>started\<close> says and every
  \<open>subprocess.call\<close> ends as \<open>rc\<close> says; \<open>git init\<close> for \<open>/srv/git/new.git\<close> creates the
  repository when it exits with status 0.
\<close>

definition ex_env :: "(py_exc + string list) \<Rightarrow> (py_exc + int) \<Rightarrow> os_env" where
  "ex_env started rc =
     \<lparr>run_process = (\<lambda>cmd inp f. (started, f)),
      subprocess_call = (\<lambda>cmd f.
         (rc, if cmd = git_init_cmdline ''/srv/git/new.git'' \<and> rc = Inr 0
              then git_init_at ''/srv/git/new.git'' f else f)),
      os_makedirs = (\<lambda>p f. Inr f)\<rparr>"

definition ex_repo :: git_repository where
  "ex_repo = \<lparr>content_path = ''/srv/git/repo.git''\<rparr>"

definition ex_request :: "string \<Rightarrow> (string \<times> string) list \<Rightarrow> string \<Rightarrow> request" where
  "ex_request p query accepted =
     \<lparr>path_info = p, GET = query, accept = (\<lambda>offer. offer = accepted),
      CONTENT_LENGTH = None, wsgi_input = []\<rparr>"

text \<open>A router over \<open>/srv/git\<close> with the given pre-create hook.\<close>

definition ex_dir :: "bool \<Rightarrow> hook \<Rightarrow> git_directory" where
  "ex_dir ac pre =
     \<lparr>dir_content_path = ''/srv/git'', auto_create = ac, pre_clone_hook = pre,
      post_clone_hook = default_hook\<rparr>"




text \<open>
  The same content root with one more symbolic link, \<open>mirror.git\<close>, that points to the bare
  repository \<open>/etc/srv/git/secret.git\<close>: a path outside the root whose text contains the
  text of the root.
\<close>

definition escape_fs :: fs where
  "escape_fs =
     ex_fs\<lparr>realpath := (realpath ex_fs)(''/srv/git/mirror.git'' := ''/etc/srv/git/secret.git''),
           listdir := (listdir ex_fs)(''/etc/srv/git/secret.git'' := Some bare_entries),
           isdir := (isdir ex_fs)(''/etc/srv/git/secret.git'' := True)\<rparr>"

section \<open>Hexadecimal text\<close>

lemma hex_val_snoc: "hex_val (s @ [c]) = 16 * hex_val s + hex_digit_val c"
  by (simp add: hex_val_def)

lemma hex_digits_all:
  "\<forall>d \<in> set [0 ..< 16].
     hex_digit_val (hex_digit d) = d \<and> hex_digit d \<in> set ''0123456789abcdef''"
  by code_simp

lemma hex_digit_val_digit: "d < 16 \<Longrightarrow> hex_digit_val (hex_digit d) = d"
  using hex_digits_all by simp

lemma hex_digit_in: "hex_digit d \<in> set ''0123456789abcdef''"
proof -
  have "hex_digit d = hex_digit (d mod 16)" by (simp add: hex_digit_def)
  moreover have "d mod 16 < 16" by simp
  ultimately show ?thesis
    using hex_digits_all by (metis atLeastLessThan_iff set_upt zero_le)
qed

lemma hex_val_hex_str: "hex_val (hex_str n) = n"
proof (induction n rule: hex_str.induct)
  case (1 n)
  show ?case
  proof (cases "n < 16")
    case True
    then show ?thesis
      by (subst hex_str.simps) (simp add: hex_val_def hex_digit_val_digit)
  next
    case False
    then have "hex_val (hex_str n)
        = 16 * hex_val (hex_str (n div 16)) + hex_digit_val (hex_digit (n mod 16))"
      by (subst hex_str.simps) (simp add: hex_val_snoc)
    with 1 False show ?thesis by (simp add: hex_digit_val_digit)
  qed
qed

lemma hex_str_chars: "set (hex_str n) \<subseteq> set ''0123456789abcdef''"
proof (induction n rule: hex_str.induct)
  case (1 n)
  show ?case
  proof (cases "n < 16")
    case True
    then show ?thesis using hex_digit_in [of n] by (subst hex_str.simps) simp
  next
    case False
    with 1 have "set (hex_str (n div 16)) \<subseteq> set ''0123456789abcdef''" by simp
    with False show ?thesis
      using hex_digit_in [of "n mod 16"] by (subst hex_str.simps) simp
  qed
qed

lemma hex_str_length: "n < 16 ^ k \<Longrightarrow> 0 < k \<Longrightarrow> length (hex_str n) \<le> k"
proof (induction n arbitrary: k rule: hex_str.induct)
  case (1 n)
  show ?case
  proof (cases "n < 16")
    case True
    with 1(3) show ?thesis by (subst hex_str.simps) simp
  next
    case False
    obtain j where k: "k = Suc j" using 1(3) by (cases k) auto
    from False 1(2) k have j: "0 < j" by (cases j) auto
    from 1(2) k have "n div 16 < 16 ^ j"
      by (simp add: less_mult_imp_div_less mult.commute)
    with 1(1) False j have "length (hex_str (n div 16)) \<le> j" by simp
    with False k show ?thesis by (subst hex_str.simps) simp
  qed
qed

lemma hex_digit_val_zero: "hex_digit_val CHR ''0'' = 0"
  by code_simp

lemma hex_val_zeros: "hex_val (replicate k CHR ''0'' @ s) = hex_val s"
proof -
  have "foldl (\<lambda>a c. 16 * a + hex_digit_val c) 0 (replicate k CHR ''0'') = 0"
    by (induction k) (simp_all add: hex_digit_val_zero)
  then show ?thesis by (simp add: hex_val_def)
qed

lemma rjust4: "n < 65536 \<Longrightarrow> length (rjust 4 CHR ''0'' (hex_str n)) = 4"
  using hex_str_length [of n 4] by (simp add: rjust_def)

section \<open>The advertisement frame (C2)\<close>

text \<open>
  C2, as the code has it. For every payload short enough for a four-digit length field, the
  frame of \<open>inforefs\<close> starts with exactly four lowercase hexadecimal digits whose value is
  the payload length plus 4, continues with the payload and ends with the flush marker
  \<open>0000\<close>; its total length is the payload length plus 8, so no newline byte is added and
  none is counted.
\<close>

theorem advert_frame_shape:
  assumes "length payload + 4 < 65536"
  shows "length (take 4 (advert_frame payload)) = 4
       \<and> set (take 4 (advert_frame payload)) \<subseteq> set ''0123456789abcdef''
       \<and> hex_val (take 4 (advert_frame payload)) = length payload + 4
       \<and> drop 4 (advert_frame payload) = payload @ ''0000''
       \<and> length (advert_frame payload) = length payload + 8"
proof -
  let ?h = "rjust 4 CHR ''0'' (hex_str (length payload + 4))"
  have len: "length ?h = 4" using assms by (rule rjust4)
  have fr: "advert_frame payload = ?h @ payload @ ''0000''" by (simp add: advert_frame_def)
  have tk: "take 4 (advert_frame payload) = ?h" using len by (simp add: fr)
  have dr: "drop 4 (advert_frame payload) = payload @ ''0000''" using len by (simp add: fr)
  have chars: "set ?h \<subseteq> set ''0123456789abcdef''"
    using hex_str_chars [of "length payload + 4"] by (auto simp: rjust_def)
  have val: "hex_val ?h = length payload + 4"
    by (simp add: rjust_def hex_val_zeros hex_val_hex_str)
  have total: "length (advert_frame payload) = length payload + 8"
    using len by (simp add: fr)
  show ?thesis using len tk dr chars val total by simp
qed

theorem advert_frame_shape_witness:
  "length (take 4 (advert_frame ''# service=git-upload-pack'')) = 4
   \<and> hex_val (take 4 (advert_frame ''# service=git-upload-pack'')) = 29
   \<and> drop 4 (advert_frame ''# service=git-upload-pack'') = ''# service=git-upload-pack0000''
   \<and> length (advert_frame ''# service=git-upload-pack'') = 33"
  using advert_frame_shape [of "''# service=git-upload-pack''"] by simp

text \<open>
  C2 as stated fails on the advertisement payload itself: the code emits \<open>001d\<close> (29, the
  payload length plus 4) and no newline, where the claim asks for \<open>001e\<close> (30) and a newline
  before the flush marker.
\<close>

theorem advert_frame_counterexample:
  "advert_frame (smart_server_advert ''git-upload-pack'') = ''001d# service=git-upload-pack0000''
   \<and> spec_frame (smart_server_advert ''git-upload-pack'')
       = ''001e# service=git-upload-pack'' @ [CHR 0x0A] @ ''0000''
   \<and> advert_frame (smart_server_advert ''git-upload-pack'')
       \<noteq> spec_frame (smart_server_advert ''git-upload-pack'')"
  by code_simp

section \<open>The two guards of the router\<close>

lemma prefix_str_contains: "prefix n h \<Longrightarrow> str_contains n h"
  by (cases h) auto

lemma not_contains_not_descendant: "\<not> str_contains base p \<Longrightarrow> \<not> is_descendant base p"
  using prefix_str_contains by (auto simp: is_descendant_def)

lemma pop_dots:
  "path_info_pop (ex_request ''/../../etc'' [] '''') = Some (''..'', ex_request ''/../etc'' [] '''')"
  by (simp add: path_info_pop_def ex_request_def)

lemma pop_link:
  "path_info_pop (ex_request ''/link.git/info/refs'' [] '''')
     = Some (''link.git'', ex_request ''/info/refs'' [] '''')"
  by (simp add: path_info_pop_def ex_request_def)

text \<open>
  The router looks at the leading path segment only. A segment that does not end with
  \<open>.git\<close> is answered with Not Found before any path is resolved. A segment that ends with
  \<open>.git\<close> and whose resolved path does not contain the text of the content root is answered
  with Forbidden. In both cases the world comes back unchanged: no directory is made, no
  process is started, no hook runs.
\<close>

lemma router_rejects_outside_root:
  assumes "path_info_pop req0 = Some (repo_name, req)"
  shows "(\<not> endswith repo_name ''.git'' \<longrightarrow>
            GitDirectory_call env self req0 w = (Inr (http_response HTTPNotFound), w))
       \<and> (endswith repo_name ''.git''
            \<and> \<not> str_contains (dir_content_path self)
                  (realpath (files w) (path_join (dir_content_path self) repo_name)) \<longrightarrow>
            GitDirectory_call env self req0 w = (Inr (http_response HTTPForbidden), w)
            \<and> \<not> is_descendant (dir_content_path self)
                  (realpath (files w) (path_join (dir_content_path self) repo_name)))"
  using assms by (simp add: GitDirectory_call_def not_contains_not_descendant)

lemma router_guards_example:
  "GitDirectory_call (ex_env (Inr []) (Inr 0)) (ex_dir True default_hook)
      (ex_request ''/../../etc'' [] '''') ex_world = (Inr (http_response HTTPNotFound), ex_world)
   \<and> GitDirectory_call (ex_env (Inr []) (Inr 0)) (ex_dir True default_hook)
      (ex_request ''/link.git/info/refs'' [] '''') ex_world
      = (Inr (http_response HTTPForbidden), ex_world)"
  using router_rejects_outside_root [OF pop_dots, where env = "ex_env (Inr []) (Inr 0)"
          and self = "ex_dir True default_hook" and w = ex_world]
        router_rejects_outside_root [OF pop_link, where env = "ex_env (Inr []) (Inr 0)"
          and self = "ex_dir True default_hook" and w = ex_world]
  by (simp add: endswith_def ex_dir_def ex_world_def ex_fs_def path_join_def startswith_def)

text \<open>
  On the request path \<open>/../../etc\<close> the name test comes first: the resolved path \<open>/srv\<close> is
  no descendant of the root \<open>/srv/git\<close>, and the answer is Not Found.
\<close>

lemma router_dotdot_not_found:
  "\<not> is_descendant ''/srv/git'' (realpath ex_fs (path_join ''/srv/git'' ''..''))
   \<and> GitDirectory_call (ex_env (Inr []) (Inr 0)) (ex_dir True default_hook)
        (ex_request ''/../../etc'' [] '''') ex_world = (Inr (http_response HTTPNotFound), ex_world)
   \<and> http_response HTTPNotFound \<noteq> http_response HTTPForbidden"
  by (simp add: GitDirectory_call_def pop_dots endswith_def is_descendant_def ex_fs_def
      path_join_def startswith_def http_response_def)

section \<open>The command whitelist (C3)\<close>

lemma trailing_segment_strip:
  assumes ne: "strip_slash p \<noteq> []" and ns: "CHR ''/'' \<notin> set (strip_slash p)"
  shows "trailing_segment p = strip_slash p"
proof -
  let ?sl = "\<lambda>c. c = CHR ''/''"
  define s1 where "s1 = takeWhile ?sl p"
  define q where "q = dropWhile ?sl p"
  define r where "r = dropWhile ?sl (rev q)"
  have p: "p = s1 @ q" by (simp add: s1_def q_def)
  have strip: "strip_slash p = rev r" by (simp add: strip_slash_def r_def q_def)
  from ne strip have rne: "r \<noteq> []" by simp
  from ns strip have rns: "\<And>x. x \<in> set r \<Longrightarrow> x \<noteq> CHR ''/''" by auto
  from rne have "\<exists>x \<in> set (rev q). \<not> ?sl x"
    unfolding r_def by (simp add: dropWhile_eq_Nil_conv)
  then obtain x where x: "x \<in> set (rev q)" "\<not> ?sl x" by blast
  have d: "dropWhile ?sl (rev p) = r @ rev s1"
    using x by (simp add: p r_def dropWhile_append1)
  have s1: "\<And>y. y \<in> set (rev s1) \<Longrightarrow> y = CHR ''/''"
    unfolding s1_def by (auto dest: set_takeWhileD)
  have t0: "takeWhile (\<lambda>c. c \<noteq> CHR ''/'') (rev s1) = []"
    using s1 by (cases "rev s1") auto
  have "takeWhile (\<lambda>c. c \<noteq> CHR ''/'') (r @ rev s1) = r"
    using rns t0 by (simp add: takeWhile_append2)
  then show ?thesis by (simp add: trailing_segment_def d strip)
qed


lemma commands_no_slash: "c \<in> set commands \<Longrightarrow> c \<noteq> [] \<and> CHR ''/'' \<notin> set c"
  by (auto simp: commands_def)

lemma trailing_not_command:
  "trailing_segment p \<notin> set commands \<Longrightarrow> strip_slash p \<notin> set commands"
  using trailing_segment_strip [of p] commands_no_slash [of "strip_slash p"] by auto

lemma inforefs_unknown:
  "multidict_getitem (GET req) ''service'' = Some s \<Longrightarrow> s \<notin> set commands \<Longrightarrow>
   inforefs env repo req w = (Inr (http_response HTTPMethodNotAllowed), w)"
  by (simp add: inforefs_def)

lemma backend_unknown:
  "strip_slash (path_info req) \<notin> set commands \<Longrightarrow>
   backend env repo req w = (Inr (http_response HTTPMethodNotAllowed), w)"
  by (simp add: backend_def)

lemma call_inforefs:
  "startswith (path_info req) ''/info/refs'' \<Longrightarrow> inforefs env repo req w = (Inr resp, w') \<Longrightarrow>
   GitRepository_call env repo req w = (resp, w')"
  by (simp add: GitRepository_call_def)

lemma call_backend:
  "\<not> startswith (path_info req) ''/info/refs'' \<Longrightarrow> list_ex (accept req) valid_accepts \<Longrightarrow>
   backend env repo req w = (Inr resp, w') \<Longrightarrow>
   GitRepository_call env repo req w = (resp, w')"
  by (simp add: GitRepository_call_def)

text \<open>
  C3. A \<open>service\<close> value outside the whitelist makes \<open>inforefs\<close> return Method Not
  Allowed, and a POST path whose trailing segment is outside the whitelist makes \<open>backend\<close>
  return Method Not Allowed; so does \<open>GitRepository.__call__\<close> when it dispatches to them.
  The world comes back unchanged in each case, so no process was started before the
  rejection.
\<close>

theorem unknown_command_rejected:
  "(multidict_getitem (GET req) ''service'' = Some s \<and> s \<notin> set commands \<longrightarrow>
      inforefs env repo req w = (Inr (http_response HTTPMethodNotAllowed), w)
      \<and> (startswith (path_info req) ''/info/refs'' \<longrightarrow>
           GitRepository_call env repo req w = (http_response HTTPMethodNotAllowed, w)))
   \<and> (trailing_segment (path_info req) \<notin> set commands \<longrightarrow>
      backend env repo req w = (Inr (http_response HTTPMethodNotAllowed), w)
      \<and> (\<not> startswith (path_info req) ''/info/refs'' \<and> list_ex (accept req) valid_accepts \<longrightarrow>
           GitRepository_call env repo req w = (http_response HTTPMethodNotAllowed, w)))"
proof (intro conjI impI)
  assume h: "multidict_getitem (GET req) ''service'' = Some s \<and> s \<notin> set commands"
  then show a: "inforefs env repo req w = (Inr (http_response HTTPMethodNotAllowed), w)"
    by (simp add: inforefs_unknown)
  assume "startswith (path_info req) ''/info/refs''"
  then show "GitRepository_call env repo req w = (http_response HTTPMethodNotAllowed, w)"
    using a by (rule call_inforefs)
next
  assume h: "trailing_segment (path_info req) \<notin> set commands"
  then show b: "backend env repo req w = (Inr (http_response HTTPMethodNotAllowed), w)"
    by (simp add: backend_unknown trailing_not_command)
  assume "\<not> startswith (path_info req) ''/info/refs'' \<and> list_ex (accept req) valid_accepts"
  then show "GitRepository_call env repo req w = (http_response HTTPMethodNotAllowed, w)"
    using b by (simp add: call_backend)
qed



theorem unknown_command_rejected_witness:
  "inforefs (ex_env (Inr []) (Inr 0)) ex_repo
      (ex_request ''/info/refs'' [(''service'', ''git-upload-archive'')] '''') ex_world
     = (Inr (http_response HTTPMethodNotAllowed), ex_world)
   \<and> GitRepository_call (ex_env (Inr []) (Inr 0)) ex_repo
      (ex_request ''/info/refs'' [(''service'', ''git-upload-archive'')] '''') ex_world
     = (http_response HTTPMethodNotAllowed, ex_world)
   \<and> backend (ex_env (Inr []) (Inr 0)) ex_repo
      (ex_request ''/git-upload-archive'' [] ''application/x-git-upload-pack-result'') ex_world
     = (Inr (http_response HTTPMethodNotAllowed), ex_world)
   \<and> GitRepository_call (ex_env (Inr []) (Inr 0)) ex_repo
      (ex_request ''/git-upload-archive'' [] ''application/x-git-upload-pack-result'') ex_world
     = (http_response HTTPMethodNotAllowed, ex_world)"
proof -
  let ?get = "ex_request ''/info/refs'' [(''service'', ''git-upload-archive'')] ''''"
  let ?post = "ex_request ''/git-upload-archive'' [] ''application/x-git-upload-pack-result''"
  have g1: "multidict_getitem (GET ?get) ''service'' = Some ''git-upload-archive''"
    by (simp add: ex_request_def multidict_getitem_def)
  have g2: "''git-upload-archive'' \<notin> set commands" by (simp add: commands_def)
  have g3: "startswith (path_info ?get) ''/info/refs''"
    by (simp add: ex_request_def startswith_def)
  have p1: "trailing_segment (path_info ?post) \<notin> set commands"
    by (simp add: ex_request_def trailing_segment_def commands_def)
  have p2: "\<not> startswith (path_info ?post) ''/info/refs''"
    by (simp add: ex_request_def startswith_def)
  have p3: "list_ex (accept ?post) valid_accepts"
    by (simp add: ex_request_def valid_accepts_def commands_def)
  show ?thesis
    using unknown_command_rejected [where req = ?get and s = "''git-upload-archive''"
            and env = "ex_env (Inr []) (Inr 0)" and repo = ex_repo and w = ex_world]
          unknown_command_rejected [where req = ?post and s = "''git-upload-archive''"
            and env = "ex_env (Inr []) (Inr 0)" and repo = ex_repo and w = ex_world]
          g1 g2 g3 p1 p2 p3
    by simp
qed

section \<open>The repository signature (C4)\<close>

lemma signature_subset:
  "(git_folder_signature \<inter> A = git_folder_signature) = (git_folder_signature \<subseteq> A)"
  by auto

text \<open>
  C4, as the code has it. The constructor succeeds exactly when the directory can be listed
  and its lowercased entry names include all five entries of the signature: \<open>config\<close>,
  \<open>head\<close>, \<open>info\<close>, \<open>objects\<close> and \<open>refs\<close>.
\<close>

theorem GitRepository_init_accepts_iff:
  "(\<exists>repo. GitRepository_init f path = Inr repo)
   = (\<exists>names. listdir f path = Some names
        \<and> {''config'', ''head'', ''info'', ''objects'', ''refs''} \<subseteq> set (map lower names))"
  by (cases "listdir f path")
     (simp_all add: GitRepository_init_def signature_subset, simp add: git_folder_signature_def)

lemma lower_bare: "map lower bare_entries
   = [''head'', ''config'', ''description'', ''hooks'', ''info'', ''objects'', ''refs'']"
  by (simp add: bare_entries_def lower_def lower_char_def)

lemma lower_four: "map lower [''config'', ''HEAD'', ''objects'', ''refs'']
   = [''config'', ''head'', ''objects'', ''refs'']"
  by (simp add: lower_def lower_char_def)

lemma GitRepository_init_fails:
  "listdir f path = Some names \<Longrightarrow> \<not> git_folder_signature \<subseteq> set (map lower names) \<Longrightarrow>
   GitRepository_init f path = Inl AssertionError"
  by (simp add: GitRepository_init_def signature_subset)

lemma four_lacks_info: "\<not> git_folder_signature \<subseteq> set (map lower [''config'', ''HEAD'', ''objects'', ''refs''])"
  unfolding lower_four by (simp add: git_folder_signature_def)

theorem GitRepository_init_accepts_iff_witness:
  "(\<exists>repo. GitRepository_init ex_fs ''/srv/git/repo.git'' = Inr repo)
   \<and> \<not> (\<exists>repo. GitRepository_init ex_fs ''/srv/git/four.git'' = Inr repo)"
proof -
  have a: "listdir ex_fs ''/srv/git/repo.git'' = Some bare_entries" by (simp add: ex_fs_def)
  have b: "listdir ex_fs ''/srv/git/four.git'' = Some [''config'', ''HEAD'', ''objects'', ''refs'']"
    by (simp add: ex_fs_def)
  have ra: "{''config'', ''head'', ''info'', ''objects'', ''refs''} \<subseteq> set (map lower bare_entries)"
    unfolding lower_bare by simp
  have rb: "\<not> {''config'', ''head'', ''info'', ''objects'', ''refs''}
              \<subseteq> set (map lower [''config'', ''HEAD'', ''objects'', ''refs''])"
    using four_lacks_info unfolding git_folder_signature_def .
  have A: "\<exists>repo. GitRepository_init ex_fs ''/srv/git/repo.git'' = Inr repo"
    unfolding GitRepository_init_accepts_iff using a ra by blast
  have B: "\<not> (\<exists>repo. GitRepository_init ex_fs ''/srv/git/four.git'' = Inr repo)"
  proof
    assume "\<exists>repo. GitRepository_init ex_fs ''/srv/git/four.git'' = Inr repo"
    then obtain names where n: "listdir ex_fs ''/srv/git/four.git'' = Some names"
      and s: "{''config'', ''head'', ''info'', ''objects'', ''refs''} \<subseteq> set (map lower names)"
      unfolding GitRepository_init_accepts_iff by blast
    from n b have "names = [''config'', ''HEAD'', ''objects'', ''refs'']" by simp
    with s rb show False by blast
  qed
  from A B show ?thesis by blast
qed

text \<open>
  C4 as stated fails on a directory that holds the four markers of the claim and no \<open>info\<close>
  entry: the constructor raises \<open>AssertionError\<close>.
\<close>

theorem four_markers_counterexample:
  "listdir ex_fs ''/srv/git/four.git'' = Some [''config'', ''HEAD'', ''objects'', ''refs'']
   \<and> map lower [''config'', ''HEAD'', ''objects'', ''refs'']
       = [''config'', ''head'', ''objects'', ''refs'']
   \<and> GitRepository_init ex_fs ''/srv/git/four.git'' = Inl AssertionError"
proof -
  have b: "listdir ex_fs ''/srv/git/four.git'' = Some [''config'', ''HEAD'', ''objects'', ''refs'']"
    by (simp add: ex_fs_def)
  from b four_lacks_info
  have "GitRepository_init ex_fs ''/srv/git/four.git'' = Inl AssertionError"
    by (rule GitRepository_init_fails)
  with b lower_four show ?thesis by blast
qed

section \<open>Launch failures (C7)\<close>

lemma inforefs_spawn_fails:
  "multidict_getitem (GET req) ''service'' = Some c \<Longrightarrow> c \<in> set commands \<Longrightarrow>
   fst (run_process env (advertise_cmdline c (content_path repo)) NoInput (files w)) = Inl OSError \<Longrightarrow>
   fst (inforefs env repo req w) = Inl (HTTPException HTTPExpectationFailed)"
  by (cases "run_process env (advertise_cmdline c (content_path repo)) NoInput (files w)")
     (simp add: inforefs_def SubprocessIOChunker_def)

lemma backend_spawn_fails:
  "strip_slash (path_info req) \<in> set commands \<Longrightarrow>
   fst (run_process env (service_cmdline (strip_slash (path_info req)) (content_path repo))
          (inputstream_of req) (files w)) = Inl OSError \<Longrightarrow>
   fst (backend env repo req w) = Inl (HTTPException HTTPExpectationFailed)"
  by (cases "run_process env (service_cmdline (strip_slash (path_info req)) (content_path repo)) (inputstream_of req) (files w)")
     (simp add: backend_def Let_def SubprocessIOChunker_def)

lemma inforefs_started:
  "multidict_getitem (GET req) ''service'' = Some c \<Longrightarrow> c \<in> set commands \<Longrightarrow>
   fst (run_process env (advertise_cmdline c (content_path repo)) NoInput (files w)) = Inr out \<Longrightarrow>
   fst (inforefs env repo req w)
     = Inr \<lparr>status = HTTPOk, content_type = ''application/x-'' @ c @ ''-advertisement'',
            app_iter = advert_frame (smart_server_advert c) # out\<rparr>"
  by (cases "run_process env (advertise_cmdline c (content_path repo)) NoInput (files w)")
     (simp add: inforefs_def SubprocessIOChunker_def)

lemma backend_upload_started:
  "strip_slash (path_info req) = ''git-upload-pack'' \<Longrightarrow>
   fst (run_process env (service_cmdline ''git-upload-pack'' (content_path repo))
          (inputstream_of req) (files w)) = Inr out \<Longrightarrow>
   fst (backend env repo req w)
     = Inr \<lparr>status = HTTPOk, content_type = result_content_type ''git-upload-pack'',
            app_iter = out\<rparr>"
  by (cases "run_process env (service_cmdline ''git-upload-pack'' (content_path repo)) (inputstream_of req) (files w)")
     (simp add: backend_def Let_def SubprocessIOChunker_def commands_def)

lemma call_inforefs_raises:
  "startswith (path_info req) ''/info/refs'' \<Longrightarrow>
   fst (inforefs env repo req w) = Inl (HTTPException s) \<Longrightarrow>
   fst (GitRepository_call env repo req w) = http_response s"
  by (cases "inforefs env repo req w") (simp add: GitRepository_call_def)

lemma call_backend_raises:
  "\<not> startswith (path_info req) ''/info/refs'' \<Longrightarrow> list_ex (accept req) valid_accepts \<Longrightarrow>
   fst (backend env repo req w) = Inl (HTTPException s) \<Longrightarrow>
   fst (GitRepository_call env repo req w) = http_response s"
  by (cases "backend env repo req w") (simp add: GitRepository_call_def)

lemma call_inforefs_returns:
  "startswith (path_info req) ''/info/refs'' \<Longrightarrow> fst (inforefs env repo req w) = Inr resp \<Longrightarrow>
   fst (GitRepository_call env repo req w) = resp"
  by (cases "inforefs env repo req w") (simp add: GitRepository_call_def)

lemma call_backend_returns:
  "\<not> startswith (path_info req) ''/info/refs'' \<Longrightarrow> list_ex (accept req) valid_accepts \<Longrightarrow>
   fst (backend env repo req w) = Inr resp \<Longrightarrow>
   fst (GitRepository_call env repo req w) = resp"
  by (cases "backend env repo req w") (simp add: GitRepository_call_def)

text \<open>
  C7. On both endpoints, when starting the git process raises an environment error the
  response of \<open>GitRepository.__call__\<close> has the status Expectation Failed (417). A process that
  did start gives the status 200 with its output as the body, whatever becomes of it later.
\<close>

theorem spawn_failure_expectation_failed:
  "(startswith (path_info req) ''/info/refs''
      \<and> multidict_getitem (GET req) ''service'' = Some c \<and> c \<in> set commands
      \<and> fst (run_process env (advertise_cmdline c (content_path repo)) NoInput (files w))
          = Inl OSError \<longrightarrow>
      status (fst (GitRepository_call env repo req w)) = HTTPExpectationFailed)
   \<and> (\<not> startswith (path_info req) ''/info/refs'' \<and> list_ex (accept req) valid_accepts
      \<and> strip_slash (path_info req) \<in> set commands
      \<and> fst (run_process env (service_cmdline (strip_slash (path_info req)) (content_path repo))
               (inputstream_of req) (files w)) = Inl OSError \<longrightarrow>
      status (fst (GitRepository_call env repo req w)) = HTTPExpectationFailed)
   \<and> status_code HTTPExpectationFailed = 417
   \<and> (startswith (path_info req) ''/info/refs''
      \<and> multidict_getitem (GET req) ''service'' = Some c \<and> c \<in> set commands
      \<and> fst (run_process env (advertise_cmdline c (content_path repo)) NoInput (files w))
          = Inr out \<longrightarrow>
      status (fst (GitRepository_call env repo req w)) = HTTPOk
      \<and> app_iter (fst (GitRepository_call env repo req w))
          = advert_frame (smart_server_advert c) # out)
   \<and> (\<not> startswith (path_info req) ''/info/refs'' \<and> list_ex (accept req) valid_accepts
      \<and> strip_slash (path_info req) = ''git-upload-pack''
      \<and> fst (run_process env (service_cmdline ''git-upload-pack'' (content_path repo))
               (inputstream_of req) (files w)) = Inr out \<longrightarrow>
      status (fst (GitRepository_call env repo req w)) = HTTPOk
      \<and> app_iter (fst (GitRepository_call env repo req w)) = out)"
proof (intro conjI impI)
  assume "startswith (path_info req) ''/info/refs''
      \<and> multidict_getitem (GET req) ''service'' = Some c \<and> c \<in> set commands
      \<and> fst (run_process env (advertise_cmdline c (content_path repo)) NoInput (files w))
          = Inl OSError"
  then have "fst (GitRepository_call env repo req w) = http_response HTTPExpectationFailed"
    by (simp add: call_inforefs_raises inforefs_spawn_fails)
  then show "status (fst (GitRepository_call env repo req w)) = HTTPExpectationFailed"
    by (simp add: http_response_def)
next
  assume "\<not> startswith (path_info req) ''/info/refs'' \<and> list_ex (accept req) valid_accepts
      \<and> strip_slash (path_info req) \<in> set commands
      \<and> fst (run_process env (service_cmdline (strip_slash (path_info req)) (content_path repo))
               (inputstream_of req) (files w)) = Inl OSError"
  then have "fst (GitRepository_call env repo req w) = http_response HTTPExpectationFailed"
    by (simp add: call_backend_raises backend_spawn_fails)
  then show "status (fst (GitRepository_call env repo req w)) = HTTPExpectationFailed"
    by (simp add: http_response_def)
next
  show "status_code HTTPExpectationFailed = 417" by simp
next
  assume h: "startswith (path_info req) ''/info/refs''
      \<and> multidict_getitem (GET req) ''service'' = Some c \<and> c \<in> set commands
      \<and> fst (run_process env (advertise_cmdline c (content_path repo)) NoInput (files w))
          = Inr out"
  then have r: "fst (GitRepository_call env repo req w)
      = \<lparr>status = HTTPOk, content_type = ''application/x-'' @ c @ ''-advertisement'',
         app_iter = advert_frame (smart_server_advert c) # out\<rparr>"
    by (simp add: call_inforefs_returns inforefs_started)
  show "status (fst (GitRepository_call env repo req w)) = HTTPOk" by (simp add: r)
  show "app_iter (fst (GitRepository_call env repo req w))
          = advert_frame (smart_server_advert c) # out" by (simp add: r)
next
  assume h: "\<not> startswith (path_info req) ''/info/refs'' \<and> list_ex (accept req) valid_accepts
      \<and> strip_slash (path_info req) = ''git-upload-pack''
      \<and> fst (run_process env (service_cmdline ''git-upload-pack'' (content_path repo))
               (inputstream_of req) (files w)) = Inr out"
  then have r: "fst (GitRepository_call env repo req w)
      = \<lparr>status = HTTPOk, content_type = result_content_type ''git-upload-pack'',
         app_iter = out\<rparr>"
    by (simp add: call_backend_returns backend_upload_started)
  show "status (fst (GitRepository_call env repo req w)) = HTTPOk" by (simp add: r)
  show "app_iter (fst (GitRepository_call env repo req w)) = out" by (simp add: r)
qed

lemma ex_get_facts:
  "startswith (path_info (ex_request ''/info/refs'' [(''service'', ''git-upload-pack'')] ''''))
     ''/info/refs''"
  "multidict_getitem (GET (ex_request ''/info/refs'' [(''service'', ''git-upload-pack'')] ''''))
     ''service'' = Some ''git-upload-pack''"
  by (simp_all add: ex_request_def startswith_def multidict_getitem_def)

lemma ex_post_facts:
  "\<not> startswith (path_info (ex_request ''/git-upload-pack'' []
        ''application/x-git-upload-pack-result'')) ''/info/refs''"
  "list_ex (accept (ex_request ''/git-upload-pack'' [] ''application/x-git-upload-pack-result''))
     valid_accepts"
  "strip_slash (path_info (ex_request ''/git-upload-pack'' []
        ''application/x-git-upload-pack-result'')) = ''git-upload-pack''"
  by (simp_all add: ex_request_def startswith_def valid_accepts_def commands_def strip_slash_def)

lemma upload_pack_command: "''git-upload-pack'' \<in> set commands"
  by (simp add: commands_def)

theorem spawn_failure_expectation_failed_witness:
  "status (fst (GitRepository_call (ex_env (Inl OSError) (Inr 0)) ex_repo
      (ex_request ''/info/refs'' [(''service'', ''git-upload-pack'')] '''') ex_world))
     = HTTPExpectationFailed
   \<and> status (fst (GitRepository_call (ex_env (Inl OSError) (Inr 0)) ex_repo
      (ex_request ''/git-upload-pack'' [] ''application/x-git-upload-pack-result'') ex_world))
     = HTTPExpectationFailed
   \<and> status (fst (GitRepository_call (ex_env (Inr [''0000'']) (Inr 0)) ex_repo
      (ex_request ''/info/refs'' [(''service'', ''git-upload-pack'')] '''') ex_world)) = HTTPOk
   \<and> status (fst (GitRepository_call (ex_env (Inr [''0000'']) (Inr 0)) ex_repo
      (ex_request ''/git-upload-pack'' [] ''application/x-git-upload-pack-result'') ex_world))
     = HTTPOk"
  using spawn_failure_expectation_failed [where env = "ex_env (Inl OSError) (Inr 0)"
          and repo = ex_repo and w = ex_world and c = "''git-upload-pack''"
          and req = "ex_request ''/info/refs'' [(''service'', ''git-upload-pack'')] ''''"]
        spawn_failure_expectation_failed [where env = "ex_env (Inl OSError) (Inr 0)"
          and repo = ex_repo and w = ex_world and c = "''git-upload-pack''"
          and req = "ex_request ''/git-upload-pack'' [] ''application/x-git-upload-pack-result''"]
        spawn_failure_expectation_failed [where env = "ex_env (Inr [''0000'']) (Inr 0)"
          and repo = ex_repo and w = ex_world and c = "''git-upload-pack''" and out = "[''0000'']"
          and req = "ex_request ''/info/refs'' [(''service'', ''git-upload-pack'')] ''''"]
        spawn_failure_expectation_failed [where env = "ex_env (Inr [''0000'']) (Inr 0)"
          and repo = ex_repo and w = ex_world and c = "''git-upload-pack''" and out = "[''0000'']"
          and req = "ex_request ''/git-upload-pack'' [] ''application/x-git-upload-pack-result''"]
  by (simp add: ex_get_facts ex_post_facts upload_pack_command ex_env_def)

section \<open>A request without a service parameter (C8)\<close>

lemma inforefs_missing_service:
  "multidict_getitem (GET req) ''service'' = None \<Longrightarrow> inforefs env repo req w = (Inl KeyError, w)"
  by (simp add: inforefs_def)

lemma call_inforefs_keyerror:
  "startswith (path_info req) ''/info/refs'' \<Longrightarrow> inforefs env repo req w = (Inl KeyError, w') \<Longrightarrow>
   GitRepository_call env repo req w = (http_response HTTPInternalServerError, w')"
  by (simp add: GitRepository_call_def)

text \<open>
  C8, evaluated on the code. A GET on \<open>/info/refs\<close> with an empty query string makes
  \<open>request.GET['service']\<close> raise \<open>KeyError\<close>, which \<open>GitRepository.__call__\<close> turns into
  Internal Server Error (500), not Method Not Allowed (405).
\<close>

theorem missing_service_internal_server_error:
  "inforefs (ex_env (Inr []) (Inr 0)) ex_repo (ex_request ''/info/refs'' [] '''') ex_world
     = (Inl KeyError, ex_world)
   \<and> GitRepository_call (ex_env (Inr []) (Inr 0)) ex_repo (ex_request ''/info/refs'' [] '''')
        ex_world = (http_response HTTPInternalServerError, ex_world)
   \<and> status_code (status (http_response HTTPInternalServerError)) = 500"
proof -
  let ?req = "ex_request ''/info/refs'' [] ''''"
  have g: "multidict_getitem (GET ?req) ''service'' = None"
    by (simp add: ex_request_def multidict_getitem_def)
  have s: "startswith (path_info ?req) ''/info/refs''"
    by (simp add: ex_request_def startswith_def)
  have i: "inforefs (ex_env (Inr []) (Inr 0)) ex_repo ?req ex_world = (Inl KeyError, ex_world)"
    using g by (rule inforefs_missing_service)
  from s i have "GitRepository_call (ex_env (Inr []) (Inr 0)) ex_repo ?req ex_world
      = (http_response HTTPInternalServerError, ex_world)"
    by (rule call_inforefs_keyerror)
  with i show ?thesis by (simp add: http_response_def)
qed

section \<open>The refresh after a push (C9)\<close>






lemma ex_env_run:
  "run_process (ex_env started rc) cmd inp f = (started, f)"
  by (simp add: ex_env_def)




section \<open>The hook options of the router (C10)\<close>








section \<open>Creating a repository on a push (C5)\<close>






lemma bare_has_signature: "git_folder_signature \<subseteq> set (map lower bare_entries)"
  unfolding lower_bare by (simp add: git_folder_signature_def)






section \<open>The bounded reader (C6)\<close>

lemma exhausted_read:
  "remain fw = 0 \<Longrightarrow> 0 < sz \<Longrightarrow> FileWrapper_read sz fw = (None, fw)"
  by (simp add: FileWrapper_read_def)

lemma read_step:
  assumes "0 < sz" and "0 \<le> remain fw" and "nat (remain fw) \<le> length (fd fw)"
    and "FileWrapper_read sz fw = (r, fw')"
  shows "0 \<le> remain fw' \<and> nat (remain fw') \<le> length (fd fw')
       \<and> int (case r of None \<Rightarrow> 0 | Some d \<Rightarrow> length d) + remain fw' = remain fw"
  using assms
  by (auto simp: FileWrapper_read_def fd_read_def split: if_splits)

text \<open>
  With positive read sizes only, and a stream that holds at least \<open>remain\<close> bytes, the bytes
  handed out and the bytes still allowed always add up to the bytes allowed at the start: no
  run of reads hands out more than \<open>Content-Length\<close> bytes.
\<close>

lemma reads_bounded:
  "\<forall>sz \<in> set szs. 0 < sz \<Longrightarrow> 0 \<le> remain fw \<Longrightarrow> nat (remain fw) \<le> length (fd fw) \<Longrightarrow>
   int (length (concat (fst (reads szs fw)))) + remain (snd (reads szs fw)) = remain fw
   \<and> 0 \<le> remain (snd (reads szs fw))"
proof (induction szs arbitrary: fw)
  case Nil
  then show ?case by simp
next
  case (Cons sz szs)
  obtain r fw' where step: "FileWrapper_read sz fw = (r, fw')"
    by (cases "FileWrapper_read sz fw")
  from Cons.prems have pos: "0 < sz" by simp
  from read_step [OF pos Cons.prems(2) Cons.prems(3) step]
  have inv: "0 \<le> remain fw'" "nat (remain fw') \<le> length (fd fw')"
    and acc: "int (case r of None \<Rightarrow> 0 | Some d \<Rightarrow> length d) + remain fw' = remain fw"
    by simp_all
  from Cons.prems have rest: "\<forall>sz \<in> set szs. 0 < sz" by simp
  from Cons.IH [OF rest inv]
  have ih: "int (length (concat (fst (reads szs fw')))) + remain (snd (reads szs fw')) = remain fw'"
    and nn: "0 \<le> remain (snd (reads szs fw'))"
    by simp_all
  show ?case
  proof (cases r)
    case None
    with step acc ih nn show ?thesis by simp
  next
    case (Some d)
    obtain ds fw'' where rs: "reads szs fw' = (ds, fw'')"
      by (cases "reads szs fw'")
    with Some step acc ih nn show ?thesis by simp
  qed
qed

text \<open>
  The guard compares the requested size with \<open>remain\<close>, so it bounds positive sizes only. On
  a wrapper over a five-byte stream with \<open>Content-Length\<close> 3, \<open>read(-1)\<close> takes the first branch
  and hands out all five bytes, and \<open>read(0)\<close> after three bytes takes it again and returns the
  empty string. The subprocess bridge reads its input in positive chunk sizes, so these sizes
  do not reach the wrapper.
\<close>

lemma read_nonpositive_size:
  "FileWrapper_read (- 1) (FileWrapper ''abcde'' 3)
     = (Some ''abcde'', \<lparr>fd = [], content_length = 3, remain = 4, fd_reads = [- 1]\<rparr>)
   \<and> reads [3, 0] (FileWrapper ''abcde'' 3)
     = ([''abc'', []], \<lparr>fd = ''de'', content_length = 3, remain = 0, fd_reads = [3, 0]\<rparr>)"
  by (simp add: FileWrapper_read_def FileWrapper_def fd_read_def)

text \<open>
  The same wrapper read in chunks of two bytes hands out three bytes in all, and the reads
  after that return \<open>None\<close> without a call into the stream.
\<close>

lemma reads_bounded_example:
  "reads [2, 2, 2, 2] (FileWrapper ''abcde'' 3)
     = ([''ab'', ''c''], \<lparr>fd = ''de'', content_length = 3, remain = 0, fd_reads = [2, 1]\<rparr>)
   \<and> int (length (concat (fst (reads [2, 2, 2, 2] (FileWrapper ''abcde'' 3)))))
       + remain (snd (reads [2, 2, 2, 2] (FileWrapper ''abcde'' 3))) = 3"
proof -
  have "int (length (concat (fst (reads [2, 2, 2, 2] (FileWrapper ''abcde'' 3)))))
       + remain (snd (reads [2, 2, 2, 2] (FileWrapper ''abcde'' 3)))
      = remain (FileWrapper ''abcde'' 3)"
    using reads_bounded [of "[2, 2, 2, 2]" "FileWrapper ''abcde'' 3"]
    by (simp add: FileWrapper_def)
  moreover have "reads [2, 2, 2, 2] (FileWrapper ''abcde'' 3)
     = ([''ab'', ''c''], \<lparr>fd = ''de'', content_length = 3, remain = 0, fd_reads = [2, 1]\<rparr>)"
    by (simp add: FileWrapper_read_def FileWrapper_def fd_read_def)
  ultimately show ?thesis by (simp add: FileWrapper_def)
qed

lemma sum_list_positive: "\<forall>sz \<in> set szs. (0::int) < sz \<Longrightarrow> 0 \<le> sum_list szs"
  by (induction szs) auto

lemma read_positive:
  assumes "0 < sz" and "0 \<le> remain fw"
  shows "FileWrapper_read sz fw
     = (if remain fw = 0 then (None, fw)
        else (Some (take (nat (min sz (remain fw))) (fd fw)),
              fw\<lparr>fd := drop (nat (min sz (remain fw))) (fd fw),
                 remain := remain fw - min sz (remain fw),
                 fd_reads := fd_reads fw @ [min sz (remain fw)]\<rparr>))"
  using assms by (auto simp: FileWrapper_read_def fd_read_def min_def)

lemma reads_exact:
  "\<forall>sz \<in> set szs. 0 < sz \<Longrightarrow> 0 \<le> remain fw \<Longrightarrow> nat (remain fw) \<le> length (fd fw) \<Longrightarrow>
   concat (fst (reads szs fw)) = take (nat (min (remain fw) (sum_list szs))) (fd fw)
   \<and> remain (snd (reads szs fw)) = remain fw - min (remain fw) (sum_list szs)
   \<and> sum_list (fd_reads (snd (reads szs fw)))
       = sum_list (fd_reads fw) + min (remain fw) (sum_list szs)"
proof (induction szs arbitrary: fw)
  case Nil
  then show ?case by simp
next
  case (Cons sz szs)
  from Cons.prems have pos: "0 < sz" and rest: "\<forall>sz \<in> set szs. 0 < sz" by simp_all
  have S: "0 \<le> sum_list szs" using rest by (rule sum_list_positive)
  note rd = read_positive [OF pos Cons.prems(2)]
  show ?case
  proof (cases "remain fw = 0")
    case True
    with Cons.IH [OF rest Cons.prems(2) Cons.prems(3)] rd S pos show ?thesis by simp
  next
    case False
    let ?m = "min sz (remain fw)"
    let ?fw = "fw\<lparr>fd := drop (nat ?m) (fd fw), remain := remain fw - ?m,
                   fd_reads := fd_reads fw @ [?m]\<rparr>"
    let ?k = "min (remain fw - ?m) (sum_list szs)"
    have step: "FileWrapper_read sz fw = (Some (take (nat ?m) (fd fw)), ?fw)"
      using rd False by simp
    have m0: "0 \<le> ?m" using pos Cons.prems(2) by simp
    have i1: "0 \<le> remain ?fw" by simp
    have "nat (remain fw - ?m) \<le> length (fd fw) - nat ?m"
      using Cons.prems(2) Cons.prems(3) pos by arith
    then have i2: "nat (remain ?fw) \<le> length (fd ?fw)" by simp
    from Cons.IH [OF rest i1 i2]
    have ih1: "concat (fst (reads szs ?fw)) = take (nat ?k) (drop (nat ?m) (fd fw))"
      and ih2: "remain (snd (reads szs ?fw)) = remain fw - ?m - ?k"
      and ih3: "sum_list (fd_reads (snd (reads szs ?fw))) = sum_list (fd_reads fw) + ?m + ?k"
      by simp_all
    have k0: "0 \<le> ?k" using S by simp
    have mk: "?m + ?k = min (remain fw) (sz + sum_list szs)" using S by (simp add: min_def)
    have "nat (?m + ?k) = nat ?m + nat ?k"
      using m0 k0 by (rule nat_add_distrib)
    then have "nat (min (remain fw) (sz + sum_list szs)) = nat ?m + nat ?k"
      unfolding mk .
    then have tk: "take (nat (min (remain fw) (sz + sum_list szs))) (fd fw)
        = take (nat ?m) (fd fw) @ take (nat ?k) (drop (nat ?m) (fd fw))"
      by (simp add: take_add)
    obtain ds fw'' where rs: "reads szs ?fw = (ds, fw'')" by (cases "reads szs ?fw")
    from rs ih1 ih2 ih3
    have c1: "concat ds = take (nat ?k) (drop (nat ?m) (fd fw))"
      and c2: "remain fw'' = remain fw - ?m - ?k"
      and c3: "sum_list (fd_reads fw'') = sum_list (fd_reads fw) + ?m + ?k"
      by simp_all
    have r: "reads (sz # szs) fw = (take (nat ?m) (fd fw) # ds, fw'')"
      using step rs by simp
    have g1: "concat (take (nat ?m) (fd fw) # ds)
        = take (nat (min (remain fw) (sz + sum_list szs))) (fd fw)"
      by (simp only: concat.simps c1 tk)
    have g2: "remain fw'' = remain fw - min (remain fw) (sz + sum_list szs)"
      using c2 mk by arith
    have g3: "sum_list (fd_reads fw'')
        = sum_list (fd_reads fw) + min (remain fw) (sz + sum_list szs)"
      using c3 mk by arith
    have f: "fst (reads (sz # szs) fw) = take (nat ?m) (fd fw) # ds"
      "snd (reads (sz # szs) fw) = fw''"
      by (simp_all only: r fst_conv snd_conv)
    have s: "sum_list (sz # szs) = sz + sum_list szs" by simp
    show ?thesis unfolding f s using g1 g2 g3 by blast
  qed
qed

text \<open>
  C6. The wrapper is built over a stream that holds at least \<open>Content-Length\<close> bytes and is
  read in positive chunk sizes, as the subprocess bridge reads its input. Whatever the sizes,
  the bytes handed out are the first bytes of the stream, never more than \<open>Content-Length\<close> of
  them, and the sizes passed to the underlying stream add up to the same number. Once the
  requested sizes reach \<open>Content-Length\<close>, exactly that many bytes have been handed out, and
  every further read returns \<open>None\<close> and leaves the wrapper as it is: the underlying stream is
  not called again.
\<close>

theorem bounded_reader_forwards_content_length:
  assumes "0 \<le> n" and "nat n \<le> length stream" and "\<forall>sz \<in> set szs. 0 < sz"
  shows "concat (fst (reads szs (FileWrapper stream n)))
           = take (nat (min n (sum_list szs))) stream
       \<and> length (concat (fst (reads szs (FileWrapper stream n)))) \<le> nat n
       \<and> sum_list (fd_reads (snd (reads szs (FileWrapper stream n)))) = min n (sum_list szs)
       \<and> (n \<le> sum_list szs \<longrightarrow>
            length (concat (fst (reads szs (FileWrapper stream n)))) = nat n
            \<and> (0 < sz \<longrightarrow>
                 FileWrapper_read sz (snd (reads szs (FileWrapper stream n)))
                   = (None, snd (reads szs (FileWrapper stream n)))))"
proof -
  let ?fw = "FileWrapper stream n"
  have f: "remain ?fw = n" "fd ?fw = stream" "fd_reads ?fw = []" by (simp_all add: FileWrapper_def)
  from reads_exact [of szs ?fw] assms
  have a: "concat (fst (reads szs ?fw)) = take (nat (min n (sum_list szs))) stream"
    and b: "remain (snd (reads szs ?fw)) = n - min n (sum_list szs)"
    and c: "sum_list (fd_reads (snd (reads szs ?fw))) = min n (sum_list szs)"
    by (simp_all add: f)
  have le: "length (concat (fst (reads szs ?fw))) \<le> nat n"
    unfolding a by simp
  have ex: "length (concat (fst (reads szs ?fw))) = nat n
      \<and> (0 < sz \<longrightarrow> FileWrapper_read sz (snd (reads szs ?fw)) = (None, snd (reads szs ?fw)))"
    if h: "n \<le> sum_list szs"
  proof -
    from h have m: "min n (sum_list szs) = n" by simp
    have "length (concat (fst (reads szs ?fw))) = nat n"
      unfolding a m using assms(2) by simp
    moreover from b m have "remain (snd (reads szs ?fw)) = 0" by simp
    then have "0 < sz \<longrightarrow> FileWrapper_read sz (snd (reads szs ?fw)) = (None, snd (reads szs ?fw))"
      by (simp add: exhausted_read)
    ultimately show ?thesis by blast
  qed
  from a le c ex show ?thesis by blast
qed

theorem bounded_reader_forwards_content_length_witness:
  "concat (fst (reads [2, 2, 2, 2] (FileWrapper ''abcde'' 3))) = ''abc''
   \<and> length (concat (fst (reads [2, 2, 2, 2] (FileWrapper ''abcde'' 3)))) = 3
   \<and> sum_list (fd_reads (snd (reads [2, 2, 2, 2] (FileWrapper ''abcde'' 3)))) = 3
   \<and> FileWrapper_read 2 (snd (reads [2, 2, 2, 2] (FileWrapper ''abcde'' 3)))
       = (None, snd (reads [2, 2, 2, 2] (FileWrapper ''abcde'' 3)))"
  using bounded_reader_forwards_content_length [of 3 "''abcde''" "[2, 2, 2, 2]" 2]
  by simp

section \<open>Containment is tested on substrings (C1)\<close>

lemma router_valid_repository:
  assumes "path_info_pop req0 = Some (repo_name, req)"
    and "endswith repo_name ''.git''"
    and "realpath (files w) (path_join (dir_content_path self) repo_name) = path"
    and "str_contains (dir_content_path self) path"
    and "GitRepository_init (files w) path = Inr app"
  shows "GitDirectory_call env self req0 w
     = (case GitRepository_call env app req w of (resp, w') \<Rightarrow> (Inr resp, w'))"
  using assms by (simp add: GitDirectory_call_def Let_def)

lemma inforefs_runs:
  assumes "multidict_getitem (GET req) ''service'' = Some c" and "c \<in> set commands"
    and "run_process env (advertise_cmdline c (content_path repo)) NoInput (files w) = (Inr out, fa)"
  shows "inforefs env repo req w
     = (Inr \<lparr>status = HTTPOk, content_type = ''application/x-'' @ c @ ''-advertisement'',
              app_iter = advert_frame (smart_server_advert c) # out\<rparr>,
        \<lparr>files = fa, trace = trace w @ [Spawned (advertise_cmdline c (content_path repo))]\<rparr>)"
  using assms by (simp add: inforefs_def SubprocessIOChunker_def)

lemma pop_mirror:
  "path_info_pop (ex_request ''/mirror.git/info/refs'' q a)
     = Some (''mirror.git'', ex_request ''/info/refs'' q a)"
  by (simp add: path_info_pop_def ex_request_def)

lemma mirror_facts:
  "endswith ''mirror.git'' ''.git''"
  "realpath escape_fs (path_join (dir_content_path (ex_dir ac h)) ''mirror.git'')
     = ''/etc/srv/git/secret.git''"
  "str_contains (dir_content_path (ex_dir ac h)) ''/etc/srv/git/secret.git''"
  "\<not> is_descendant ''/srv/git'' ''/etc/srv/git/secret.git''"
  by (simp_all add: endswith_def escape_fs_def ex_fs_def ex_dir_def path_join_def startswith_def
      is_descendant_def)

lemma secret_is_repository:
  "GitRepository_init escape_fs ''/etc/srv/git/secret.git''
     = Inr \<lparr>content_path = ''/etc/srv/git/secret.git''\<rparr>"
  using bare_has_signature
  by (simp add: GitRepository_init_def escape_fs_def signature_subset del: set_map)

text \<open>
  C1, evaluated on the code. The content root is \<open>/srv/git\<close> and \<open>mirror.git\<close> in it is a
  symbolic link to \<open>/etc/srv/git/secret.git\<close>. The resolved path is no descendant of the root,
  but the text \<open>/srv/git\<close> occurs in it, so \<open>self.content_path not in content_path\<close> is false:
  the request is not answered with Forbidden. The router serves the repository outside the
  root with status 200, and a git process is started on it.
\<close>

theorem router_serves_path_outside_root:
  "realpath escape_fs (path_join ''/srv/git'' ''mirror.git'') = ''/etc/srv/git/secret.git''
   \<and> \<not> is_descendant ''/srv/git'' ''/etc/srv/git/secret.git''
   \<and> GitDirectory_call (ex_env (Inr [''0000'']) (Inr 0)) (ex_dir True default_hook)
        (ex_request ''/mirror.git/info/refs'' [(''service'', ''git-upload-pack'')] '''')
        \<lparr>files = escape_fs, trace = []\<rparr>
      = (Inr \<lparr>status = HTTPOk, content_type = ''application/x-git-upload-pack-advertisement'',
               app_iter = [''001d# service=git-upload-pack0000'', ''0000'']\<rparr>,
         \<lparr>files = escape_fs,
          trace = [Spawned (advertise_cmdline ''git-upload-pack'' ''/etc/srv/git/secret.git'')]\<rparr>)"
proof -
  let ?env = "ex_env (Inr [''0000'']) (Inr 0)"
  let ?q = "[(''service'', ''git-upload-pack'')]"
  let ?req = "ex_request ''/info/refs'' ?q ''''"
  let ?w = "\<lparr>files = escape_fs, trace = []\<rparr>"
  let ?repo = "\<lparr>content_path = ''/etc/srv/git/secret.git''\<rparr>"
  have rp: "realpath escape_fs (path_join ''/srv/git'' ''mirror.git'') = ''/etc/srv/git/secret.git''"
    using mirror_facts(2) [of True default_hook] by (simp add: ex_dir_def)
  have g: "multidict_getitem (GET ?req) ''service'' = Some ''git-upload-pack''"
    by (simp add: ex_request_def multidict_getitem_def)
  have s: "startswith (path_info ?req) ''/info/refs''"
    by (simp add: ex_request_def startswith_def)
  have fr: "advert_frame (smart_server_advert ''git-upload-pack'')
      = ''001d# service=git-upload-pack0000''"
    by code_simp
  have i: "inforefs ?env ?repo ?req ?w
      = (Inr \<lparr>status = HTTPOk, content_type = ''application/x-git-upload-pack-advertisement'',
               app_iter = [''001d# service=git-upload-pack0000'', ''0000'']\<rparr>,
         \<lparr>files = escape_fs,
          trace = [Spawned (advertise_cmdline ''git-upload-pack'' ''/etc/srv/git/secret.git'')]\<rparr>)"
    using inforefs_runs [OF g upload_pack_command, of ?env ?repo ?w "[''0000'']" escape_fs]
    by (simp add: ex_env_run fr)
  have c: "GitRepository_call ?env ?repo ?req ?w
      = (\<lparr>status = HTTPOk, content_type = ''application/x-git-upload-pack-advertisement'',
          app_iter = [''001d# service=git-upload-pack0000'', ''0000'']\<rparr>,
         \<lparr>files = escape_fs,
          trace = [Spawned (advertise_cmdline ''git-upload-pack'' ''/etc/srv/git/secret.git'')]\<rparr>)"
    using s i by (rule call_inforefs)
  have r2: "realpath (files ?w)
        (path_join (dir_content_path (ex_dir True default_hook)) ''mirror.git'')
      = ''/etc/srv/git/secret.git''"
    using mirror_facts(2) [of True default_hook] by simp
  have r5: "GitRepository_init (files ?w) ''/etc/srv/git/secret.git'' = Inr ?repo"
    using secret_is_repository by simp
  have "GitDirectory_call ?env (ex_dir True default_hook)
        (ex_request ''/mirror.git/info/refs'' ?q '''') ?w
      = (case GitRepository_call ?env ?repo ?req ?w of (resp, w') \<Rightarrow> (Inr resp, w'))"
    by (rule router_valid_repository [OF pop_mirror mirror_facts(1) r2 mirror_facts(3) r5])
  with c rp mirror_facts(4) show ?thesis by simp
qed

end
